theory Spec2Isabelle
  imports Main "HOL-Library.Word" "HOL-Library.AList" "HOL-Library.Sublist"
begin

section \<open>JavaScript strings\<close>

text \<open>
  A JavaScript string is a sequence of UTF-16 code units. String literals of the
  development are written in ASCII and converted by \<open>js\<close>.
\<close>

type_synonym jsstring = "16 word list"

definition js :: "string \<Rightarrow> jsstring" where
  "js s = map (\<lambda>c. of_nat (of_char c)) s"

text \<open>
  \<^verbatim>\<open>String.prototype.trim\<close> removes the code points of the ECMAScript productions
  WhiteSpace (TAB, VT, FF, SP, NBSP, ZWNBSP and the Unicode category Zs) and
  LineTerminator (LF, CR, LS, PS) from both ends. All of them are single code units.
\<close>

definition isWhiteSpace :: "16 word \<Rightarrow> bool" where
  "isWhiteSpace c =
     (c = 0x09 \<or> c = 0x0A \<or> c = 0x0B \<or> c = 0x0C \<or> c = 0x0D \<or> c = 0x20 \<or> c = 0xA0
      \<or> c = 0x1680 \<or> (0x2000 \<le> c \<and> c \<le> 0x200A) \<or> c = 0x2028 \<or> c = 0x2029
      \<or> c = 0x202F \<or> c = 0x205F \<or> c = 0x3000 \<or> c = 0xFEFF)"

definition trim :: "jsstring \<Rightarrow> jsstring" where
  "trim s = rev (dropWhile isWhiteSpace (rev (dropWhile isWhiteSpace s)))"

section \<open>Exceptions of the platform\<close>

text \<open>
  The exceptions the browser functions used by the hook can throw: \<^verbatim>\<open>localStorage\<close> access
  that is denied, \<^verbatim>\<open>setItem\<close> beyond the quota, \<^verbatim>\<open>JSON.parse\<close> on text that is not JSON.
\<close>

datatype exn = SecurityError | QuotaExceededError | SyntaxError

section \<open>JSON.parse\<close>

text \<open>
  The values \<^verbatim>\<open>JSON.parse\<close> returns. A number is kept as the literal it was read from
  (its rounding to a double is not computed). An object is the list of its properties;
  a repeated key overwrites the earlier value.
\<close>

datatype json = JNull | JBool bool | JNum jsstring | JStr jsstring
  | JArr "json list" | JObj "(jsstring \<times> json) list"

text \<open>Lexical level: string literals with their escapes, number literals, punctuation.\<close>

definition isDigit :: "16 word \<Rightarrow> bool" where
  "isDigit c = (0x30 \<le> c \<and> c \<le> 0x39)"

definition hexVal :: "16 word \<Rightarrow> 16 word option" where
  "hexVal c =
     (if 0x30 \<le> c \<and> c \<le> 0x39 then Some (c - 0x30)
      else if 0x61 \<le> c \<and> c \<le> 0x66 then Some (c - 0x57)
      else if 0x41 \<le> c \<and> c \<le> 0x46 then Some (c - 0x37)
      else None)"

definition hex4 :: "16 word \<Rightarrow> 16 word \<Rightarrow> 16 word \<Rightarrow> 16 word \<Rightarrow> 16 word option" where
  "hex4 a b c d =
     (case (hexVal a, hexVal b, hexVal c, hexVal d) of
        (Some x, Some y, Some z, Some w) \<Rightarrow> Some (x * 0x1000 + y * 0x100 + z * 0x10 + w)
      | _ \<Rightarrow> None)"

definition unescape :: "16 word \<Rightarrow> 16 word option" where
  "unescape e =
     (if e = 0x22 \<or> e = 0x5C \<or> e = 0x2F then Some e
      else if e = 0x62 then Some 0x08
      else if e = 0x66 then Some 0x0C
      else if e = 0x6E then Some 0x0A
      else if e = 0x72 then Some 0x0D
      else if e = 0x74 then Some 0x09
      else None)"

fun stringBody :: "jsstring \<Rightarrow> (jsstring \<times> jsstring) option" where
  "stringBody [] = None"
| "stringBody (c # cs) =
     (if c = 0x22 then Some ([], cs)
      else if c = 0x5C then
        (case cs of
           [] \<Rightarrow> None
         | e # es \<Rightarrow>
             if e = 0x75 then
               (case es of
                  h1 # h2 # h3 # h4 # rest \<Rightarrow>
                    (case hex4 h1 h2 h3 h4 of
                       None \<Rightarrow> None
                     | Some u \<Rightarrow> map_option (\<lambda>(str, r). (u # str, r)) (stringBody rest))
                | _ \<Rightarrow> None)
             else
               (case unescape e of
                  None \<Rightarrow> None
                | Some u \<Rightarrow> map_option (\<lambda>(str, r). (u # str, r)) (stringBody es)))
      else if c < 0x20 then None
      else map_option (\<lambda>(str, r). (c # str, r)) (stringBody cs))"

definition lexInt :: "jsstring \<Rightarrow> (jsstring \<times> jsstring) option" where
  "lexInt s =
     (case s of
        [] \<Rightarrow> None
      | c # cs \<Rightarrow>
          if c = 0x30 then Some ([c], cs)
          else if isDigit c then Some (takeWhile isDigit s, dropWhile isDigit s)
          else None)"

definition lexFrac :: "jsstring \<Rightarrow> (jsstring \<times> jsstring) option" where
  "lexFrac s =
     (case s of
        c # cs \<Rightarrow>
          if c = 0x2E then
            (if takeWhile isDigit cs = [] then None
             else Some (c # takeWhile isDigit cs, dropWhile isDigit cs))
          else Some ([], s)
      | [] \<Rightarrow> Some ([], s))"

definition lexExp :: "jsstring \<Rightarrow> (jsstring \<times> jsstring) option" where
  "lexExp s =
     (case s of
        c # cs \<Rightarrow>
          if c = 0x65 \<or> c = 0x45 then
            (let sg = (case cs of x # xs \<Rightarrow> if x = 0x2B \<or> x = 0x2D then [x] else [] | [] \<Rightarrow> []);
                 ds = drop (length sg) cs
             in if takeWhile isDigit ds = [] then None
                else Some (c # sg @ takeWhile isDigit ds, dropWhile isDigit ds))
          else Some ([], s)
      | [] \<Rightarrow> Some ([], s))"

definition lexNumber :: "jsstring \<Rightarrow> (jsstring \<times> jsstring) option" where
  "lexNumber s =
     (let sg = (case s of c # cs \<Rightarrow> if c = 0x2D then [c] else [] | [] \<Rightarrow> [])
      in case lexInt (drop (length sg) s) of
           None \<Rightarrow> None
         | Some (i, r1) \<Rightarrow>
             (case lexFrac r1 of
                None \<Rightarrow> None
              | Some (f, r2) \<Rightarrow>
                  (case lexExp r2 of
                     None \<Rightarrow> None
                   | Some (e, r3) \<Rightarrow> Some (sg @ i @ f @ e, r3))))"

datatype token = TLBracket | TRBracket | TLBrace | TRBrace | TComma | TColon | TValue json

definition isJSONWhiteSpace :: "16 word \<Rightarrow> bool" where
  "isJSONWhiteSpace c = (c = 0x09 \<or> c = 0x0A \<or> c = 0x0D \<or> c = 0x20)"

function tokenize :: "jsstring \<Rightarrow> token list option" where
  "tokenize [] = Some []"
| "tokenize (c # cs) =
     (if isJSONWhiteSpace c then tokenize cs
      else if c = 0x5B then map_option (Cons TLBracket) (tokenize cs)
      else if c = 0x5D then map_option (Cons TRBracket) (tokenize cs)
      else if c = 0x7B then map_option (Cons TLBrace) (tokenize cs)
      else if c = 0x7D then map_option (Cons TRBrace) (tokenize cs)
      else if c = 0x2C then map_option (Cons TComma) (tokenize cs)
      else if c = 0x3A then map_option (Cons TColon) (tokenize cs)
      else if c = 0x22 then
        (case stringBody cs of
           None \<Rightarrow> None
         | Some (str, rest) \<Rightarrow> map_option (Cons (TValue (JStr str))) (tokenize rest))
      else if c = 0x2D \<or> isDigit c then
        (case lexNumber (c # cs) of
           None \<Rightarrow> None
         | Some (lexeme, rest) \<Rightarrow> map_option (Cons (TValue (JNum lexeme))) (tokenize rest))
      else if take 4 (c # cs) = [0x74, 0x72, 0x75, 0x65] then
        map_option (Cons (TValue (JBool True))) (tokenize (drop 3 cs))
      else if take 5 (c # cs) = [0x66, 0x61, 0x6C, 0x73, 0x65] then
        map_option (Cons (TValue (JBool False))) (tokenize (drop 4 cs))
      else if take 4 (c # cs) = [0x6E, 0x75, 0x6C, 0x6C] then
        map_option (Cons (TValue JNull)) (tokenize (drop 3 cs))
      else None)"
  by pat_completeness auto
termination
proof (relation "measure length")
  have sb: "length rest \<le> length cs" if "stringBody cs = Some (str, rest)" for cs str rest
    using that
  proof (induction cs arbitrary: str rest rule: stringBody.induct)
    case 1
    then show ?case by simp
  next
    case (2 c cs)
    then show ?case
      by (fastforce split: if_splits list.splits option.splits)
  qed
  have li: "length r < length s" if "lexInt s = Some (x, r)" for s x r
    using that length_dropWhile_le [of isDigit "tl s"]
    by (auto simp: lexInt_def split: list.splits if_splits)
  have lf: "length r \<le> length s" if "lexFrac s = Some (x, r)" for s x r
    using that length_dropWhile_le [of isDigit "tl s"]
    by (auto simp: lexFrac_def split: list.splits if_splits)
  have le: "length r \<le> length s" if "lexExp s = Some (x, r)" for s x r
    using that length_dropWhile_le [of isDigit "tl s"] length_dropWhile_le [of isDigit "tl (tl s)"]
    by (auto simp: lexExp_def Let_def split: list.splits if_splits)
  have ln: "length r < length s" if "lexNumber s = Some (x, r)" for s x r
  proof -
    define sg where "sg = (case s of c # cs \<Rightarrow> if c = 0x2D then [c] else [] | [] \<Rightarrow> [])"
    from that obtain i r1 f r2 e where
      "lexInt (drop (length sg) s) = Some (i, r1)" "lexFrac r1 = Some (f, r2)"
      "lexExp r2 = Some (e, r)"
      by (auto simp: lexNumber_def Let_def sg_def split: option.splits)
    from li [OF this(1)] lf [OF this(2)] le [OF this(3)] show ?thesis by simp
  qed
  show "wf (measure length)" by simp
  show "(rest, c # cs) \<in> measure length"
    if "stringBody cs = Some x" "(str, rest) = x" for c cs x str rest
    using sb [of cs str rest] that by simp
  show "(rest, c # cs) \<in> measure length"
    if "lexNumber (c # cs) = Some x" "(lexeme, rest) = x" for c cs x lexeme rest
    using ln [of "c # cs" lexeme rest] that by simp
qed simp_all

text \<open>
  Syntactic level: one JSON value, read with a stack of the arrays and objects that are
  still open. \<open>parseValue\<close> expects a value, \<open>parseAfter\<close> has just read one.
\<close>

datatype frame = InArr "json list" | InObj "(jsstring \<times> json) list" jsstring

fun parseValue :: "frame list \<Rightarrow> token list \<Rightarrow> json option"
  and parseAfter :: "json \<Rightarrow> frame list \<Rightarrow> token list \<Rightarrow> json option" where
  "parseValue st [] = None"
| "parseValue st (t # ts) =
     (case t of
        TValue v \<Rightarrow> parseAfter v st ts
      | TLBracket \<Rightarrow>
          (case ts of
             TRBracket # ts' \<Rightarrow> parseAfter (JArr []) st ts'
           | _ \<Rightarrow> parseValue (InArr [] # st) ts)
      | TLBrace \<Rightarrow>
          (case ts of
             TRBrace # ts' \<Rightarrow> parseAfter (JObj []) st ts'
           | TValue (JStr k) # TColon # ts' \<Rightarrow> parseValue (InObj [] k # st) ts'
           | _ \<Rightarrow> None)
      | _ \<Rightarrow> None)"
| "parseAfter v [] ts = (if ts = [] then Some v else None)"
| "parseAfter v (fr # st) [] = None"
| "parseAfter v (fr # st) (t # ts) =
     (case fr of
        InArr xs \<Rightarrow>
          (case t of
             TComma \<Rightarrow> parseValue (InArr (xs @ [v]) # st) ts
           | TRBracket \<Rightarrow> parseAfter (JArr (xs @ [v])) st ts
           | _ \<Rightarrow> None)
      | InObj ms k \<Rightarrow>
          (case t of
             TComma \<Rightarrow>
               (case ts of
                  TValue (JStr k') # TColon # ts' \<Rightarrow>
                    parseValue (InObj (AList.update k v ms) k' # st) ts'
                | _ \<Rightarrow> None)
           | TRBrace \<Rightarrow> parseAfter (JObj (AList.update k v ms)) st ts
           | _ \<Rightarrow> None))"

definition JSON_parse :: "jsstring \<Rightarrow> exn + json" where
  "JSON_parse s =
     (case tokenize s of
        None \<Rightarrow> Inl SyntaxError
      | Some ts \<Rightarrow> (case parseValue [] ts of None \<Rightarrow> Inl SyntaxError | Some v \<Rightarrow> Inr v))"

section \<open>pages/TaskManager.jsx: state and handlers\<close>

text \<open>
  A task is the object literal \<^verbatim>\<open>{ id: Date.now(), text, completed: false }\<close>.
  \<^verbatim>\<open>Date.now()\<close> is an integral number of milliseconds, so \<open>id_t\<close> is an \<open>int\<close>.
\<close>

record task =
  id_t :: int
  text_t :: jsstring
  completed :: bool

text \<open>The filter state holds one of the three strings the filter buttons pass to \<^verbatim>\<open>setFilter\<close>.\<close>

datatype filter_t = AllF | ActiveF | CompletedF

text \<open>
  The three state variables of the component:
  \<^verbatim>\<open>[tasks, setTasks]\<close>, \<^verbatim>\<open>[text, setText]\<close>, \<^verbatim>\<open>[filter, setFilter]\<close>.
\<close>

record tm_state =
  tasks :: "task list"
  text_s :: jsstring
  filter_s :: filter_t

text \<open>Initial values: \<^verbatim>\<open>useLocalStorage('tasks', [])\<close> on an empty store, \<^verbatim>\<open>useState('')\<close>, \<^verbatim>\<open>useState('All')\<close>.\<close>

definition init_state :: tm_state where
  "init_state = \<lparr>tasks = [], text_s = [], filter_s = AllF\<rparr>"

text \<open>
  An event handler reads the state of the render it was created in and calls state
  setters; React applies the queued calls, in order, for the next render. A handler is
  therefore a function from the rendered state to the list of setter calls it makes.
\<close>

datatype setter = SetTasks "task list" | SetText jsstring | SetFilter filter_t

fun apply_setter :: "tm_state \<Rightarrow> setter \<Rightarrow> tm_state" where
  "apply_setter s (SetTasks ts) = s\<lparr>tasks := ts\<rparr>"
| "apply_setter s (SetText v) = s\<lparr>text_s := v\<rparr>"
| "apply_setter s (SetFilter f) = s\<lparr>filter_s := f\<rparr>"

definition rerender :: "(tm_state \<Rightarrow> setter list) \<Rightarrow> tm_state \<Rightarrow> tm_state" where
  "rerender h s = foldl apply_setter s (h s)"

text \<open>
  \<^verbatim>\<open>
  const addTask = () => {
    if (text.trim()) {
      setTasks([...tasks, { id: Date.now(), text, completed: false }]);
      setText('');
    }
  };
  \<close>
  The argument \<open>now\<close> is the value \<^verbatim>\<open>Date.now()\<close> returns during the call. A string is
  truthy iff it is not empty.
\<close>

definition addTask :: "int \<Rightarrow> tm_state \<Rightarrow> setter list" where
  "addTask now s =
     (if trim (text_s s) \<noteq> []
      then [SetTasks (tasks s @ [\<lparr>id_t = now, text_t = text_s s, completed = False\<rparr>]),
            SetText []]
      else [])"

text \<open>
  \<^verbatim>\<open>setTasks(tasks.map(t => t.id === id ? { ...t, completed: !t.completed } : t))\<close>
\<close>

definition toggleTask :: "int \<Rightarrow> tm_state \<Rightarrow> setter list" where
  "toggleTask i s =
     [SetTasks (map (\<lambda>t. if id_t t = i then t\<lparr>completed := \<not> completed t\<rparr> else t) (tasks s))]"

text \<open>\<^verbatim>\<open>setTasks(tasks.filter(t => t.id !== id))\<close>\<close>

definition deleteTask :: "int \<Rightarrow> tm_state \<Rightarrow> setter list" where
  "deleteTask i s = [SetTasks (filter (\<lambda>t. id_t t \<noteq> i) (tasks s))]"

text \<open>The input's \<^verbatim>\<open>onChange\<close> and the filter buttons' \<^verbatim>\<open>onClick\<close>.\<close>

definition changeText :: "jsstring \<Rightarrow> tm_state \<Rightarrow> setter list" where
  "changeText v s = [SetText v]"

definition chooseFilter :: "filter_t \<Rightarrow> tm_state \<Rightarrow> setter list" where
  "chooseFilter f s = [SetFilter f]"

text \<open>
  \<^verbatim>\<open>
  const filteredTasks = tasks.filter(t =>
    filter === 'All' ? true : filter === 'Active' ? !t.completed : t.completed);
  \<close>
\<close>

definition filteredTasks :: "tm_state \<Rightarrow> task list" where
  "filteredTasks s =
     filter (\<lambda>t. if filter_s s = AllF then True
                 else if filter_s s = ActiveF then \<not> completed t
                 else completed t) (tasks s)"

text \<open>
  A run of additions: the user types \<open>v\<close> into the input, then clicks Add while the
  clock reads \<open>now\<close>.
\<close>

fun addTasks :: "(jsstring \<times> int) list \<Rightarrow> tm_state \<Rightarrow> tm_state" where
  "addTasks [] s = s"
| "addTasks ((v, now) # cs) s = addTasks cs (rerender (addTask now) (rerender (changeText v) s))"

section \<open>JSON.stringify on the task array\<close>

text \<open>
  \<^verbatim>\<open>Number::toString\<close> of an integral time value (\<^verbatim>\<open>Date.now()\<close> is an integer of
  magnitude at most 8.64e15) is its decimal numeral.
\<close>

fun digits :: "nat \<Rightarrow> jsstring" where
  "digits n = (if n < 10 then [0x30 + of_nat n] else digits (n div 10) @ [0x30 + of_nat (n mod 10)])"

declare digits.simps [simp del]

definition numberToString :: "int \<Rightarrow> jsstring" where
  "numberToString n = (if n < 0 then 0x2D # digits (nat (- n)) else digits (nat n))"

text \<open>
  \<^verbatim>\<open>QuoteJSONString\<close>: the quote, the backslash and the control characters are escaped; a
  surrogate code unit is escaped unless it is part of a pair; anything else is copied.
\<close>

definition hexDigit :: "16 word \<Rightarrow> 16 word" where
  "hexDigit d = (if d < 10 then 0x30 + d else 0x57 + d)"

definition unicodeEscape :: "16 word \<Rightarrow> jsstring" where
  "unicodeEscape c =
     [0x5C, 0x75, hexDigit (take_bit 4 (drop_bit 12 c)), hexDigit (take_bit 4 (drop_bit 8 c)),
      hexDigit (take_bit 4 (drop_bit 4 c)), hexDigit (take_bit 4 c)]"

definition isLeadSurrogate :: "16 word \<Rightarrow> bool" where
  "isLeadSurrogate c = (0xD800 \<le> c \<and> c \<le> 0xDBFF)"

definition isTrailSurrogate :: "16 word \<Rightarrow> bool" where
  "isTrailSurrogate c = (0xDC00 \<le> c \<and> c \<le> 0xDFFF)"

definition quoteUnit :: "16 word \<Rightarrow> jsstring" where
  "quoteUnit c =
     (if c = 0x08 then [0x5C, 0x62]
      else if c = 0x09 then [0x5C, 0x74]
      else if c = 0x0A then [0x5C, 0x6E]
      else if c = 0x0C then [0x5C, 0x66]
      else if c = 0x0D then [0x5C, 0x72]
      else if c = 0x22 then [0x5C, 0x22]
      else if c = 0x5C then [0x5C, 0x5C]
      else if c < 0x20 \<or> isLeadSurrogate c \<or> isTrailSurrogate c then unicodeEscape c
      else [c])"

fun quoteUnits :: "jsstring \<Rightarrow> jsstring" where
  "quoteUnits [] = []"
| "quoteUnits [c] = quoteUnit c"
| "quoteUnits (c # d # cs) =
     (if isLeadSurrogate c \<and> isTrailSurrogate d then c # d # quoteUnits cs
      else quoteUnit c @ quoteUnits (d # cs))"

definition quoteJSONString :: "jsstring \<Rightarrow> jsstring" where
  "quoteJSONString s = 0x22 # quoteUnits s @ [0x22]"

text \<open>
  A task object has the properties \<^verbatim>\<open>id\<close>, \<^verbatim>\<open>text\<close> and \<^verbatim>\<open>completed\<close>, in the order of the
  object literal (the spread in \<^verbatim>\<open>toggleTask\<close> keeps it). No gap is passed to
  \<^verbatim>\<open>JSON.stringify\<close>, so nothing is inserted between the tokens.
\<close>

definition property :: "string \<Rightarrow> jsstring \<Rightarrow> jsstring" where
  "property name v = quoteJSONString (js name) @ [0x3A] @ v"

definition stringifyTask :: "task \<Rightarrow> jsstring" where
  "stringifyTask t =
     [0x7B] @ property ''id'' (numberToString (id_t t)) @ [0x2C]
       @ property ''text'' (quoteJSONString (text_t t)) @ [0x2C]
       @ property ''completed'' (if completed t then js ''true'' else js ''false'')
       @ [0x7D]"

fun joinComma :: "jsstring list \<Rightarrow> jsstring" where
  "joinComma [] = []"
| "joinComma [x] = x"
| "joinComma (x # y # ys) = x @ [0x2C] @ joinComma (y # ys)"

definition JSON_stringify :: "task list \<Rightarrow> jsstring" where
  "JSON_stringify ts = [0x5B] @ joinComma (map stringifyTask ts) @ [0x5D]"

section \<open>localStorage\<close>

text \<open>
  The origin's storage area: its key/value pairs, whether the page may access it at all
  (the browser throws a SecurityError otherwise), the quota in code units over all keys
  and values (\<^verbatim>\<open>setItem\<close> throws a QuotaExceededError when the new contents would exceed
  it), and the number of \<^verbatim>\<open>setItem\<close> calls that have stored something.
\<close>

record storage =
  items :: "(jsstring \<times> jsstring) list"
  accessible :: bool
  quota :: nat
  writes :: nat

definition usage :: "(jsstring \<times> jsstring) list \<Rightarrow> nat" where
  "usage kvs = sum_list (map (\<lambda>(k, v). length k + length v) kvs)"

text \<open>\<^verbatim>\<open>getItem\<close> returns \<^verbatim>\<open>null\<close> (here \<open>None\<close>) for a key that is absent.\<close>

definition getItem :: "storage \<Rightarrow> jsstring \<Rightarrow> exn + jsstring option" where
  "getItem st k = (if accessible st then Inr (map_of (items st) k) else Inl SecurityError)"

definition setItem :: "storage \<Rightarrow> jsstring \<Rightarrow> jsstring \<Rightarrow> exn + storage" where
  "setItem st k v =
     (if \<not> accessible st then Inl SecurityError
      else if quota st < usage (AList.update k v (items st)) then Inl QuotaExceededError
      else Inr (st\<lparr>items := AList.update k v (items st), writes := Suc (writes st)\<rparr>))"

section \<open>hooks/useLocalStorage.js\<close>

text \<open>
  The initialiser of the state:
  \<^verbatim>\<open>
  try {
    const item = localStorage.getItem(key);
    return item ? JSON.parse(item) : initialValue;
  } catch (error) {
    return initialValue;
  }
  \<close>
  \<^verbatim>\<open>item\<close> is falsy when it is \<^verbatim>\<open>null\<close> or the empty string.
\<close>

definition useLocalStorage_init :: "storage \<Rightarrow> jsstring \<Rightarrow> json \<Rightarrow> json" where
  "useLocalStorage_init st key initialValue =
     (case getItem st key of
        Inl error \<Rightarrow> initialValue
      | Inr item \<Rightarrow>
          (case item of
             None \<Rightarrow> initialValue
           | Some i \<Rightarrow>
               if i \<noteq> [] then
                 (case JSON_parse i of Inl error \<Rightarrow> initialValue | Inr v \<Rightarrow> v)
               else initialValue))"

text \<open>
  The effect, which has no \<^verbatim>\<open>try\<close>:
  \<^verbatim>\<open>
  useEffect(() => {
    localStorage.setItem(key, JSON.stringify(storedValue));
  }, [key, storedValue]);
  \<close>
  Here \<open>storedValue\<close> is the task array the component holds.
\<close>

definition useLocalStorage_effect :: "storage \<Rightarrow> jsstring \<Rightarrow> task list \<Rightarrow> exn + storage" where
  "useLocalStorage_effect st key storedValue = setItem st key (JSON_stringify storedValue)"

section \<open>An event, from the handler to the effect\<close>

text \<open>The key of \<^verbatim>\<open>useLocalStorage('tasks', [])\<close>.\<close>

definition tasksKey :: jsstring where
  "tasksKey = js ''tasks''"

fun setsTasks :: "setter \<Rightarrow> bool" where
  "setsTasks (SetTasks ts) = True"
| "setsTasks _ = False"

text \<open>
  React runs the handler, applies its setter calls and renders again. The effect of
  \<^verbatim>\<open>useLocalStorage\<close> depends on \<^verbatim>\<open>[key, storedValue]\<close>: it runs after the render exactly
  when \<^verbatim>\<open>setTasks\<close> was called, since every handler passes it a newly built array. An
  exception thrown by the effect is not caught anywhere in the repository: the event ends
  with it (\<open>Inl\<close>), and React unmounts the component.
\<close>

definition dispatch ::
  "(tm_state \<Rightarrow> setter list) \<Rightarrow> tm_state \<times> storage \<Rightarrow> exn + tm_state \<times> storage" where
  "dispatch h w =
     (case w of
        (s, st) \<Rightarrow>
          if list_ex setsTasks (h s) then
            (case useLocalStorage_effect st tasksKey (tasks (rerender h s)) of
               Inl e \<Rightarrow> Inl e
             | Inr st' \<Rightarrow> Inr (rerender h s, st'))
          else Inr (rerender h s, st))"

text \<open>
  A session: the events of the page, one after the other, until one ends with an
  exception.
\<close>

fun run ::
  "(tm_state \<Rightarrow> setter list) list \<Rightarrow> tm_state \<times> storage \<Rightarrow> exn + tm_state \<times> storage" where
  "run [] w = Inr w"
| "run (h # hs) w = (case dispatch h w of Inl e \<Rightarrow> Inl e | Inr w' \<Rightarrow> run hs w')"

text \<open>The store holds, under the tasks key, the encoding of the task sequence in memory.\<close>

definition inSync :: "tm_state \<times> storage \<Rightarrow> bool" where
  "inSync w = (getItem (snd w) tasksKey = Inr (Some (JSON_stringify (tasks (fst w)))))"

section \<open>Basic facts about the handlers\<close>

lemma tasks_rerender_toggleTask:
  "tasks (rerender (toggleTask i) s) =
     map (\<lambda>t. if id_t t = i then t\<lparr>completed := \<not> completed t\<rparr> else t) (tasks s)"
  by (simp add: rerender_def toggleTask_def)


lemma rerender_deleteTask:
  "rerender (deleteTask i) s = s\<lparr>tasks := filter (\<lambda>t. id_t t \<noteq> i) (tasks s)\<rparr>"
  by (simp add: rerender_def deleteTask_def)

lemma rerender_addTask:
  "rerender (addTask now) s =
     (if trim (text_s s) \<noteq> []
      then s\<lparr>tasks := tasks s @ [\<lparr>id_t = now, text_t = text_s s, completed = False\<rparr>],
             text_s := []\<rparr>
      else s)"
  by (simp add: rerender_def addTask_def)

lemma rerender_changeText: "rerender (changeText v) s = s\<lparr>text_s := v\<rparr>"
  by (simp add: rerender_def changeText_def)



section \<open>Basic facts about the store and the events\<close>

lemmas parse_eval = JSON_parse_def isJSONWhiteSpace_def isDigit_def lexNumber_def lexInt_def
  lexFrac_def lexExp_def hexVal_def hex4_def unescape_def Let_def

lemmas stringify_eval = JSON_stringify_def stringifyTask_def property_def quoteJSONString_def
  quoteUnit_def isLeadSurrogate_def isTrailSurrogate_def numberToString_def digits.simps

lemma getItem_setItem:
  assumes "setItem st k v = Inr st'"
  shows "getItem st' k = Inr (Some v)"
  using assms by (auto simp: setItem_def getItem_def update_conv' split: if_splits)

lemma setItem_accepts:
  assumes "accessible st" and "usage (AList.update k v (items st)) \<le> quota st"
  shows "setItem st k v = Inr (st\<lparr>items := AList.update k v (items st), writes := Suc (writes st)\<rparr>)"
  using assms by (simp add: setItem_def)

lemma dispatch_setTasks:
  assumes "list_ex setsTasks (h s)"
  shows "dispatch h (s, st) =
           (case setItem st tasksKey (JSON_stringify (tasks (rerender h s))) of
              Inl e \<Rightarrow> Inl e
            | Inr st' \<Rightarrow> Inr (rerender h s, st'))"
  using assms by (simp add: dispatch_def useLocalStorage_effect_def)

lemma dispatch_no_setTasks:
  assumes "\<not> list_ex setsTasks (h s)"
  shows "dispatch h (s, st) = Inr (rerender h s, st)"
  using assms by (simp add: dispatch_def)

lemma dispatch_Inr_persisted:
  assumes "list_ex setsTasks (h s)" and "dispatch h (s, st) = Inr (s', st')"
  shows "s' = rerender h s \<and> getItem st' tasksKey = Inr (Some (JSON_stringify (tasks s')))"
proof -
  from assms obtain st'' where
    w: "setItem st tasksKey (JSON_stringify (tasks (rerender h s))) = Inr st''"
    and r: "Inr (rerender h s, st'') = (Inr (s', st') :: exn + tm_state \<times> storage)"
    by (auto simp: dispatch_setTasks split: sum.splits)
  from r have "s' = rerender h s" "st' = st''" by simp_all
  with getItem_setItem [OF w] show ?thesis by simp
qed

lemma setItem_InrD:
  assumes "setItem st k v = Inr st'"
  shows "accessible st \<and> usage (AList.update k v (items st)) \<le> quota st \<and>
         st' = st\<lparr>items := AList.update k v (items st), writes := Suc (writes st)\<rparr>"
  using assms by (auto simp: setItem_def split: if_splits)

lemma setItem_same_value:
  assumes "getItem st k = Inr (Some v)" and "usage (items st) \<le> quota st"
  shows "setItem st k v = Inr (st\<lparr>writes := Suc (writes st)\<rparr>)"
proof -
  from assms(1) have a: "accessible st" and m: "map_of (items st) k = Some v"
    by (auto simp: getItem_def split: if_splits)
  from m have "AList.update k v (items st) = items st"
    by (rule update_triv)
  with a assms(2) show ?thesis
    by (simp add: setItem_def)
qed

lemma dispatch_accepts:
  assumes "list_ex setsTasks (h s)" and "accessible st"
    and "usage (AList.update tasksKey (JSON_stringify (tasks (rerender h s))) (items st))
           \<le> quota st"
  shows "dispatch h (s, st) =
           Inr (rerender h s,
                st\<lparr>items := AList.update tasksKey (JSON_stringify (tasks (rerender h s))) (items st),
                   writes := Suc (writes st)\<rparr>)"
  using assms by (simp add: dispatch_setTasks setItem_accepts)

lemma dispatch_same_tasks:
  assumes "list_ex setsTasks (h s)" and "rerender h s = s"
    and "inSync (s, st)" and "usage (items st) \<le> quota st"
  shows "dispatch h (s, st) = Inr (s, st\<lparr>writes := Suc (writes st)\<rparr>)"
proof -
  from assms(3) have "getItem st tasksKey = Inr (Some (JSON_stringify (tasks s)))"
    by (simp add: inSync_def)
  from setItem_same_value [OF this assms(4)] assms(1,2) show ?thesis
    by (simp add: dispatch_setTasks)
qed

lemma dispatch_Inr_fits:
  assumes "list_ex setsTasks (h s)" and "dispatch h (s, st) = Inr (s', st')"
  shows "usage (items st') \<le> quota st'"
proof -
  from assms obtain st'' where
    w: "setItem st tasksKey (JSON_stringify (tasks (rerender h s))) = Inr st''"
    and r: "Inr (rerender h s, st'') = (Inr (s', st') :: exn + tm_state \<times> storage)"
    by (auto simp: dispatch_setTasks split: sum.splits)
  from r have "st' = st''" by simp
  with setItem_InrD [OF w] show ?thesis by auto
qed

section \<open>Filtered view\<close>

text \<open>
  C6. Under Active the view is exactly the tasks with \<open>completed = False\<close>, under
  Completed exactly those with \<open>completed = True\<close>, under All the whole sequence; in
  each case the view is a subsequence of the collection, in insertion order.
\<close>

theorem filteredTasks_exact:
  "(filter_s s = AllF \<longrightarrow> filteredTasks s = tasks s) \<and>
   (filter_s s = ActiveF \<longrightarrow> filteredTasks s = filter (\<lambda>t. \<not> completed t) (tasks s)) \<and>
   (filter_s s = CompletedF \<longrightarrow> filteredTasks s = filter completed (tasks s)) \<and>
   subseq (filteredTasks s) (tasks s)"
  by (cases "filter_s s") (simp_all add: filteredTasks_def)

theorem filteredTasks_exact_witness:
  "filteredTasks \<lparr>tasks = [\<lparr>id_t = 1, text_t = js ''a'', completed = True\<rparr>,
                           \<lparr>id_t = 2, text_t = js ''b'', completed = False\<rparr>,
                           \<lparr>id_t = 3, text_t = js ''c'', completed = True\<rparr>],
                  text_s = [], filter_s = CompletedF\<rparr>
     = [\<lparr>id_t = 1, text_t = js ''a'', completed = True\<rparr>,
        \<lparr>id_t = 3, text_t = js ''c'', completed = True\<rparr>] \<and>
   filteredTasks \<lparr>tasks = [\<lparr>id_t = 1, text_t = js ''a'', completed = True\<rparr>,
                           \<lparr>id_t = 2, text_t = js ''b'', completed = False\<rparr>,
                           \<lparr>id_t = 3, text_t = js ''c'', completed = True\<rparr>],
                  text_s = [], filter_s = ActiveF\<rparr>
     = [\<lparr>id_t = 2, text_t = js ''b'', completed = False\<rparr>] \<and>
   filteredTasks \<lparr>tasks = [\<lparr>id_t = 1, text_t = js ''a'', completed = True\<rparr>,
                           \<lparr>id_t = 2, text_t = js ''b'', completed = False\<rparr>],
                  text_s = [], filter_s = AllF\<rparr>
     = [\<lparr>id_t = 1, text_t = js ''a'', completed = True\<rparr>,
        \<lparr>id_t = 2, text_t = js ''b'', completed = False\<rparr>]"
  using filteredTasks_exact
    [of "\<lparr>tasks = [\<lparr>id_t = 1, text_t = js ''a'', completed = True\<rparr>,
                    \<lparr>id_t = 2, text_t = js ''b'', completed = False\<rparr>,
                    \<lparr>id_t = 3, text_t = js ''c'', completed = True\<rparr>],
           text_s = [], filter_s = CompletedF\<rparr>"]
    filteredTasks_exact
    [of "\<lparr>tasks = [\<lparr>id_t = 1, text_t = js ''a'', completed = True\<rparr>,
                    \<lparr>id_t = 2, text_t = js ''b'', completed = False\<rparr>,
                    \<lparr>id_t = 3, text_t = js ''c'', completed = True\<rparr>],
           text_s = [], filter_s = ActiveF\<rparr>"]
    filteredTasks_exact
    [of "\<lparr>tasks = [\<lparr>id_t = 1, text_t = js ''a'', completed = True\<rparr>,
                    \<lparr>id_t = 2, text_t = js ''b'', completed = False\<rparr>],
           text_s = [], filter_s = AllF\<rparr>"]
  by simp

section \<open>Toggling\<close>




section \<open>Deleting\<close>

lemma filter_single_split:
  assumes "length (filter P xs) = 1"
  shows "\<exists>ys t zs. xs = ys @ t # zs \<and> P t \<and> (\<forall>y\<in>set ys. \<not> P y) \<and> (\<forall>z\<in>set zs. \<not> P z)"
proof -
  from assms obtain t where t: "filter P xs = [t]"
    by (cases "filter P xs") auto
  then obtain ys zs where "xs = ys @ t # zs" "\<forall>y\<in>set ys. \<not> P y" "P t" "[] = filter P zs"
    unfolding filter_eq_Cons_iff by blast
  moreover from this have "\<forall>z\<in>set zs. \<not> P z"
    by (metis filter_empty_conv)
  ultimately show ?thesis by blast
qed

lemma length_filter_complement:
  "length (filter (\<lambda>x. \<not> P x) xs) + length (filter P xs) = length xs"
  by (induction xs) auto

text \<open>
  C8 as stated fails on a collection in which two tasks share the id: both are removed
  and the length decreases by two. A further \<^verbatim>\<open>deleteTask\<close> with the same id, made while
  the store cannot be accessed, ends with an exception.
\<close>

theorem deleteTask_length_counterexample:
  "id_t (hd (tasks \<lparr>tasks = [\<lparr>id_t = 1, text_t = js ''a'', completed = False\<rparr>,
                    \<lparr>id_t = 1, text_t = js ''b'', completed = False\<rparr>],
           text_s = [], filter_s = AllF\<rparr>)) = 1 \<and>
   Suc (length (tasks (rerender (deleteTask 1)
          \<lparr>tasks = [\<lparr>id_t = 1, text_t = js ''a'', completed = False\<rparr>,
                    \<lparr>id_t = 1, text_t = js ''b'', completed = False\<rparr>],
           text_s = [], filter_s = AllF\<rparr>)))
     \<noteq> length (tasks \<lparr>tasks = [\<lparr>id_t = 1, text_t = js ''a'', completed = False\<rparr>,
                    \<lparr>id_t = 1, text_t = js ''b'', completed = False\<rparr>],
           text_s = [], filter_s = AllF\<rparr>) \<and>
   dispatch (deleteTask 1)
     (rerender (deleteTask 1)
          \<lparr>tasks = [\<lparr>id_t = 1, text_t = js ''a'', completed = False\<rparr>,
                    \<lparr>id_t = 1, text_t = js ''b'', completed = False\<rparr>],
           text_s = [], filter_s = AllF\<rparr>,
      \<lparr>items = [], accessible = False, quota = 5242880, writes = 0\<rparr>)
     = Inl SecurityError"
  by (simp add: rerender_deleteTask dispatch_def deleteTask_def useLocalStorage_effect_def
      setItem_def)

text \<open>
  C8, amended. When exactly one task of the collection has the given id,
  \<^verbatim>\<open>deleteTask(id)\<close> removes that task and nothing else: the tasks before it and after it
  stay, in order, and the length decreases by exactly one. For every collection, what
  remains is a subsequence of the collection, a \<^verbatim>\<open>deleteTask\<close> of an id that no task has
  and a second \<^verbatim>\<open>deleteTask(id)\<close> leave the state unchanged, and the event returns without
  error whenever the store accepts the write. When the first \<^verbatim>\<open>deleteTask(id)\<close> has
  returned, the second returns too, with the same state and the same store contents and
  one more write counted.
\<close>

theorem deleteTask_removes_the_task:
  "(length (filter (\<lambda>t. id_t t = i) (tasks s)) = 1 \<longrightarrow>
      (\<exists>ys t zs. tasks s = ys @ t # zs \<and> id_t t = i \<and>
         tasks (rerender (deleteTask i) s) = ys @ zs) \<and>
      Suc (length (tasks (rerender (deleteTask i) s))) = length (tasks s)) \<and>
   subseq (tasks (rerender (deleteTask i) s)) (tasks s) \<and>
   rerender (deleteTask i) (rerender (deleteTask i) s) = rerender (deleteTask i) s \<and>
   (i \<notin> id_t ` set (tasks s) \<longrightarrow> rerender (deleteTask i) s = s) \<and>
   (accessible st \<longrightarrow>
    usage (AList.update tasksKey (JSON_stringify (tasks (rerender (deleteTask i) s))) (items st))
      \<le> quota st \<longrightarrow>
    dispatch (deleteTask i) (s, st) =
      Inr (rerender (deleteTask i) s,
           st\<lparr>items := AList.update tasksKey
                          (JSON_stringify (tasks (rerender (deleteTask i) s))) (items st),
              writes := Suc (writes st)\<rparr>)) \<and>
   (dispatch (deleteTask i) (s, st) = Inr (s', st') \<longrightarrow>
    s' = rerender (deleteTask i) s \<and>
    dispatch (deleteTask i) (s', st') = Inr (s', st'\<lparr>writes := Suc (writes st')\<rparr>))"
proof (intro conjI impI)
  assume one: "length (filter (\<lambda>t. id_t t = i) (tasks s)) = 1"
  from filter_single_split [OF one] obtain ys t zs where
    split: "tasks s = ys @ t # zs" "id_t t = i"
      "\<forall>y\<in>set ys. id_t y \<noteq> i" "\<forall>z\<in>set zs. id_t z \<noteq> i"
    by blast
  then have del: "tasks (rerender (deleteTask i) s) = ys @ zs"
    by (simp add: rerender_deleteTask)
  from split(1,2) del
  show "\<exists>ys t zs. tasks s = ys @ t # zs \<and> id_t t = i \<and>
          tasks (rerender (deleteTask i) s) = ys @ zs"
    by blast
  from split(1) del show "Suc (length (tasks (rerender (deleteTask i) s))) = length (tasks s)"
    by simp
next
  show "subseq (tasks (rerender (deleteTask i) s)) (tasks s)"
    by (simp add: rerender_deleteTask)
next
  show "rerender (deleteTask i) (rerender (deleteTask i) s) = rerender (deleteTask i) s"
    by (simp add: rerender_deleteTask)
next
  assume "i \<notin> id_t ` set (tasks s)"
  then have "filter (\<lambda>t. id_t t \<noteq> i) (tasks s) = tasks s"
    by (auto simp: filter_id_conv)
  then show "rerender (deleteTask i) s = s"
    by (simp add: rerender_deleteTask)
next
  assume "accessible st"
    and "usage (AList.update tasksKey (JSON_stringify (tasks (rerender (deleteTask i) s)))
           (items st)) \<le> quota st"
  moreover have "list_ex setsTasks (deleteTask i s)"
    by (simp add: deleteTask_def)
  ultimately show "dispatch (deleteTask i) (s, st) =
      Inr (rerender (deleteTask i) s,
           st\<lparr>items := AList.update tasksKey
                          (JSON_stringify (tasks (rerender (deleteTask i) s))) (items st),
              writes := Suc (writes st)\<rparr>)"
    by (simp add: dispatch_accepts)
next
  assume d: "dispatch (deleteTask i) (s, st) = Inr (s', st')"
  have w: "list_ex setsTasks (deleteTask i s)"
    by (simp add: deleteTask_def)
  from dispatch_Inr_persisted [OF w d]
  have s': "s' = rerender (deleteTask i) s" and sync: "inSync (s', st')"
    by (simp_all add: inSync_def)
  from s' show "s' = rerender (deleteTask i) s" .
  from s' have same: "rerender (deleteTask i) s' = s'"
    by (simp add: rerender_deleteTask)
  have w': "list_ex setsTasks (deleteTask i s')"
    by (simp add: deleteTask_def)
  from dispatch_same_tasks [OF w' same sync dispatch_Inr_fits [OF w d]]
  show "dispatch (deleteTask i) (s', st') = Inr (s', st'\<lparr>writes := Suc (writes st')\<rparr>)" .
qed

theorem deleteTask_removes_the_task_witness:
  "length (filter (\<lambda>t. id_t t = 2)
     (tasks \<lparr>tasks = [\<lparr>id_t = 1, text_t = js ''a'', completed = False\<rparr>,
               \<lparr>id_t = 2, text_t = js ''b'', completed = True\<rparr>,
               \<lparr>id_t = 3, text_t = js ''c'', completed = False\<rparr>],
      text_s = [], filter_s = AllF\<rparr>)) = 1 \<and>
   Suc (length (tasks (rerender (deleteTask 2)
     \<lparr>tasks = [\<lparr>id_t = 1, text_t = js ''a'', completed = False\<rparr>,
               \<lparr>id_t = 2, text_t = js ''b'', completed = True\<rparr>,
               \<lparr>id_t = 3, text_t = js ''c'', completed = False\<rparr>],
      text_s = [], filter_s = AllF\<rparr>))) = 3 \<and>
   dispatch (deleteTask 2)
     (\<lparr>tasks = [\<lparr>id_t = 1, text_t = js ''a'', completed = False\<rparr>,
               \<lparr>id_t = 2, text_t = js ''b'', completed = True\<rparr>,
               \<lparr>id_t = 3, text_t = js ''c'', completed = False\<rparr>],
      text_s = [], filter_s = AllF\<rparr>, \<lparr>items = [], accessible = True, quota = 5242880, writes = 0\<rparr>)
     = Inr (\<lparr>tasks = [\<lparr>id_t = 1, text_t = js ''a'', completed = False\<rparr>,
               \<lparr>id_t = 3, text_t = js ''c'', completed = False\<rparr>],
      text_s = [], filter_s = AllF\<rparr>,
            \<lparr>items = [(tasksKey, JSON_stringify (tasks \<lparr>tasks = [\<lparr>id_t = 1, text_t = js ''a'', completed = False\<rparr>,
               \<lparr>id_t = 3, text_t = js ''c'', completed = False\<rparr>],
      text_s = [], filter_s = AllF\<rparr>))],
             accessible = True, quota = 5242880, writes = 1\<rparr>) \<and>
   dispatch (deleteTask 2)
     (\<lparr>tasks = [\<lparr>id_t = 1, text_t = js ''a'', completed = False\<rparr>,
               \<lparr>id_t = 3, text_t = js ''c'', completed = False\<rparr>],
      text_s = [], filter_s = AllF\<rparr>,
      \<lparr>items = [(tasksKey, JSON_stringify (tasks \<lparr>tasks = [\<lparr>id_t = 1, text_t = js ''a'', completed = False\<rparr>,
               \<lparr>id_t = 3, text_t = js ''c'', completed = False\<rparr>],
      text_s = [], filter_s = AllF\<rparr>))],
       accessible = True, quota = 5242880, writes = 1\<rparr>)
     = Inr (\<lparr>tasks = [\<lparr>id_t = 1, text_t = js ''a'', completed = False\<rparr>,
               \<lparr>id_t = 3, text_t = js ''c'', completed = False\<rparr>],
      text_s = [], filter_s = AllF\<rparr>,
            \<lparr>items = [(tasksKey, JSON_stringify (tasks \<lparr>tasks = [\<lparr>id_t = 1, text_t = js ''a'', completed = False\<rparr>,
               \<lparr>id_t = 3, text_t = js ''c'', completed = False\<rparr>],
      text_s = [], filter_s = AllF\<rparr>))],
             accessible = True, quota = 5242880, writes = 2\<rparr>)"
proof -
  have h: "length (filter (\<lambda>t. id_t t = 2)
     (tasks \<lparr>tasks = [\<lparr>id_t = 1, text_t = js ''a'', completed = False\<rparr>,
               \<lparr>id_t = 2, text_t = js ''b'', completed = True\<rparr>,
               \<lparr>id_t = 3, text_t = js ''c'', completed = False\<rparr>],
      text_s = [], filter_s = AllF\<rparr>)) = 1"
    by simp
  have d: "dispatch (deleteTask 2)
     (\<lparr>tasks = [\<lparr>id_t = 1, text_t = js ''a'', completed = False\<rparr>,
               \<lparr>id_t = 2, text_t = js ''b'', completed = True\<rparr>,
               \<lparr>id_t = 3, text_t = js ''c'', completed = False\<rparr>],
      text_s = [], filter_s = AllF\<rparr>, \<lparr>items = [], accessible = True, quota = 5242880, writes = 0\<rparr>)
     = Inr (\<lparr>tasks = [\<lparr>id_t = 1, text_t = js ''a'', completed = False\<rparr>,
               \<lparr>id_t = 3, text_t = js ''c'', completed = False\<rparr>],
      text_s = [], filter_s = AllF\<rparr>,
            \<lparr>items = [(tasksKey, JSON_stringify (tasks \<lparr>tasks = [\<lparr>id_t = 1, text_t = js ''a'', completed = False\<rparr>,
               \<lparr>id_t = 3, text_t = js ''c'', completed = False\<rparr>],
      text_s = [], filter_s = AllF\<rparr>))],
             accessible = True, quota = 5242880, writes = 1\<rparr>)"
    by (simp add: dispatch_def deleteTask_def rerender_def useLocalStorage_effect_def
        setItem_def usage_def tasksKey_def stringify_eval js_def)
  note T = deleteTask_removes_the_task
    [of 2 "\<lparr>tasks = [\<lparr>id_t = 1, text_t = js ''a'', completed = False\<rparr>,
               \<lparr>id_t = 2, text_t = js ''b'', completed = True\<rparr>,
               \<lparr>id_t = 3, text_t = js ''c'', completed = False\<rparr>],
      text_s = [], filter_s = AllF\<rparr>" "\<lparr>items = [], accessible = True, quota = 5242880, writes = 0\<rparr>" "\<lparr>tasks = [\<lparr>id_t = 1, text_t = js ''a'', completed = False\<rparr>,
               \<lparr>id_t = 3, text_t = js ''c'', completed = False\<rparr>],
      text_s = [], filter_s = AllF\<rparr>"
        "\<lparr>items = [(tasksKey, JSON_stringify (tasks \<lparr>tasks = [\<lparr>id_t = 1, text_t = js ''a'', completed = False\<rparr>,
               \<lparr>id_t = 3, text_t = js ''c'', completed = False\<rparr>],
      text_s = [], filter_s = AllF\<rparr>))],
          accessible = True, quota = 5242880, writes = 1\<rparr>"]
  from T h have "Suc (length (tasks (rerender (deleteTask 2)
     \<lparr>tasks = [\<lparr>id_t = 1, text_t = js ''a'', completed = False\<rparr>,
               \<lparr>id_t = 2, text_t = js ''b'', completed = True\<rparr>,
               \<lparr>id_t = 3, text_t = js ''c'', completed = False\<rparr>],
      text_s = [], filter_s = AllF\<rparr>))) = length (tasks \<lparr>tasks = [\<lparr>id_t = 1, text_t = js ''a'', completed = False\<rparr>,
               \<lparr>id_t = 2, text_t = js ''b'', completed = True\<rparr>,
               \<lparr>id_t = 3, text_t = js ''c'', completed = False\<rparr>],
      text_s = [], filter_s = AllF\<rparr>)"
    by blast
  then have l: "Suc (length (tasks (rerender (deleteTask 2)
     \<lparr>tasks = [\<lparr>id_t = 1, text_t = js ''a'', completed = False\<rparr>,
               \<lparr>id_t = 2, text_t = js ''b'', completed = True\<rparr>,
               \<lparr>id_t = 3, text_t = js ''c'', completed = False\<rparr>],
      text_s = [], filter_s = AllF\<rparr>))) = 3"
    by simp
  from T d have "dispatch (deleteTask 2)
     (\<lparr>tasks = [\<lparr>id_t = 1, text_t = js ''a'', completed = False\<rparr>,
               \<lparr>id_t = 3, text_t = js ''c'', completed = False\<rparr>],
      text_s = [], filter_s = AllF\<rparr>,
      \<lparr>items = [(tasksKey, JSON_stringify (tasks \<lparr>tasks = [\<lparr>id_t = 1, text_t = js ''a'', completed = False\<rparr>,
               \<lparr>id_t = 3, text_t = js ''c'', completed = False\<rparr>],
      text_s = [], filter_s = AllF\<rparr>))],
       accessible = True, quota = 5242880, writes = 1\<rparr>)
     = Inr (\<lparr>tasks = [\<lparr>id_t = 1, text_t = js ''a'', completed = False\<rparr>,
               \<lparr>id_t = 3, text_t = js ''c'', completed = False\<rparr>],
      text_s = [], filter_s = AllF\<rparr>,
            \<lparr>items = [(tasksKey, JSON_stringify (tasks \<lparr>tasks = [\<lparr>id_t = 1, text_t = js ''a'', completed = False\<rparr>,
               \<lparr>id_t = 3, text_t = js ''c'', completed = False\<rparr>],
      text_s = [], filter_s = AllF\<rparr>))],
       accessible = True, quota = 5242880, writes = 1\<rparr>\<lparr>writes := Suc (writes \<lparr>items = [(tasksKey, JSON_stringify (tasks \<lparr>tasks = [\<lparr>id_t = 1, text_t = js ''a'', completed = False\<rparr>,
               \<lparr>id_t = 3, text_t = js ''c'', completed = False\<rparr>],
      text_s = [], filter_s = AllF\<rparr>))],
       accessible = True, quota = 5242880, writes = 1\<rparr>)\<rparr>)"
    by blast
  then have r: "dispatch (deleteTask 2)
     (\<lparr>tasks = [\<lparr>id_t = 1, text_t = js ''a'', completed = False\<rparr>,
               \<lparr>id_t = 3, text_t = js ''c'', completed = False\<rparr>],
      text_s = [], filter_s = AllF\<rparr>,
      \<lparr>items = [(tasksKey, JSON_stringify (tasks \<lparr>tasks = [\<lparr>id_t = 1, text_t = js ''a'', completed = False\<rparr>,
               \<lparr>id_t = 3, text_t = js ''c'', completed = False\<rparr>],
      text_s = [], filter_s = AllF\<rparr>))],
       accessible = True, quota = 5242880, writes = 1\<rparr>)
     = Inr (\<lparr>tasks = [\<lparr>id_t = 1, text_t = js ''a'', completed = False\<rparr>,
               \<lparr>id_t = 3, text_t = js ''c'', completed = False\<rparr>],
      text_s = [], filter_s = AllF\<rparr>,
            \<lparr>items = [(tasksKey, JSON_stringify (tasks \<lparr>tasks = [\<lparr>id_t = 1, text_t = js ''a'', completed = False\<rparr>,
               \<lparr>id_t = 3, text_t = js ''c'', completed = False\<rparr>],
      text_s = [], filter_s = AllF\<rparr>))],
             accessible = True, quota = 5242880, writes = 2\<rparr>)"
    by simp
  from h l d r show ?thesis
    by (intro conjI)
qed

section \<open>Collections in which tasks share an id\<close>

text \<open>
  C10. When two or more tasks share the given id, one \<^verbatim>\<open>deleteTask(id)\<close> removes all
  of them (the length decreases by their number, hence by at least two, and no task with
  the id remains), and one \<^verbatim>\<open>toggleTask(id)\<close> negates the \<open>completed\<close> flag of each of them.
\<close>

theorem shared_id_delete_toggle_all:
  assumes "2 \<le> length (filter (\<lambda>t. id_t t = i) (tasks s))"
  shows "length (tasks (rerender (deleteTask i) s)) + length (filter (\<lambda>t. id_t t = i) (tasks s))
           = length (tasks s) \<and>
         length (tasks (rerender (deleteTask i) s)) + 2 \<le> length (tasks s) \<and>
         (\<forall>t\<in>set (tasks (rerender (deleteTask i) s)). id_t t \<noteq> i) \<and>
         (\<forall>k < length (tasks s). id_t (tasks s ! k) = i \<longrightarrow>
            completed (tasks (rerender (toggleTask i) s) ! k) = (\<not> completed (tasks s ! k)))"
proof -
  have len: "length (tasks (rerender (deleteTask i) s)) + length (filter (\<lambda>t. id_t t = i) (tasks s))
           = length (tasks s)"
    using length_filter_complement [of "\<lambda>t. id_t t = i" "tasks s"]
    by (simp add: rerender_deleteTask)
  with assms have "length (tasks (rerender (deleteTask i) s)) + 2 \<le> length (tasks s)"
    by linarith
  moreover have "\<forall>t\<in>set (tasks (rerender (deleteTask i) s)). id_t t \<noteq> i"
    by (simp add: rerender_deleteTask)
  moreover have "\<forall>k < length (tasks s). id_t (tasks s ! k) = i \<longrightarrow>
            completed (tasks (rerender (toggleTask i) s) ! k) = (\<not> completed (tasks s ! k))"
    by (simp add: tasks_rerender_toggleTask)
  ultimately show ?thesis using len by blast
qed

theorem shared_id_delete_toggle_all_witness:
  "2 \<le> length (filter (\<lambda>t. id_t t = 5)
     (tasks \<lparr>tasks = [\<lparr>id_t = 5, text_t = js ''a'', completed = False\<rparr>,
                      \<lparr>id_t = 7, text_t = js ''b'', completed = False\<rparr>,
                      \<lparr>id_t = 5, text_t = js ''c'', completed = True\<rparr>],
             text_s = [], filter_s = AllF\<rparr>)) \<and>
   length (tasks (rerender (deleteTask 5)
     \<lparr>tasks = [\<lparr>id_t = 5, text_t = js ''a'', completed = False\<rparr>,
               \<lparr>id_t = 7, text_t = js ''b'', completed = False\<rparr>,
               \<lparr>id_t = 5, text_t = js ''c'', completed = True\<rparr>],
      text_s = [], filter_s = AllF\<rparr>)) + 2 \<le> 3"
proof -
  have h: "2 \<le> length (filter (\<lambda>t. id_t t = 5)
     (tasks \<lparr>tasks = [\<lparr>id_t = 5, text_t = js ''a'', completed = False\<rparr>,
                      \<lparr>id_t = 7, text_t = js ''b'', completed = False\<rparr>,
                      \<lparr>id_t = 5, text_t = js ''c'', completed = True\<rparr>],
             text_s = [], filter_s = AllF\<rparr>))"
    by simp
  show ?thesis using h shared_id_delete_toggle_all [OF h] by simp
qed

section \<open>Adding\<close>

lemma trim_Nil: "trim [] = []"
  by (simp add: trim_def)

lemma tasks_addTasks:
  "\<forall>c\<in>set cs. trim (fst c) \<noteq> [] \<Longrightarrow>
     tasks (addTasks cs s) =
       tasks s @ map (\<lambda>c. \<lparr>id_t = snd c, text_t = fst c, completed = False\<rparr>) cs"
proof (induction cs arbitrary: s)
  case Nil
  then show ?case by simp
next
  case (Cons c cs)
  obtain v now where c: "c = (v, now)" by (cases c)
  from Cons.prems have v: "trim v \<noteq> []" and rest: "\<forall>c\<in>set cs. trim (fst c) \<noteq> []"
    by (simp_all add: c)
  show ?case
    by (simp add: c Cons.IH [OF rest] rerender_addTask rerender_changeText v)
qed

text \<open>
  C3 as stated fails: the text typed as space, \<open>a\<close>, space passes the test on its
  trimmed form and is stored as typed, with the spaces.
\<close>

theorem addTask_untrimmed_counterexample:
  "trim (js '' a '') \<noteq> [] \<and>
   text_t (last (tasks (rerender (addTask 1700000000000)
      \<lparr>tasks = [], text_s = js '' a '', filter_s = AllF\<rparr>))) \<noteq> trim (js '' a '') \<and>
   isWhiteSpace (hd (text_t (last (tasks (rerender (addTask 1700000000000)
      \<lparr>tasks = [], text_s = js '' a '', filter_s = AllF\<rparr>)))))"
  by (simp add: rerender_addTask js_def trim_def isWhiteSpace_def)

text \<open>
  C3, amended. For every input whose trimmed form is not empty, \<^verbatim>\<open>addTask\<close> appends one
  task whose text is the input as typed (trimming is used for the test only). The stored
  text is therefore not empty and its trimmed form is not empty, and a collection in
  which this holds of every task keeps the property.
\<close>

theorem addTask_stores_text_as_typed:
  assumes "trim (text_s s) \<noteq> []"
  shows "tasks (rerender (addTask now) s) =
           tasks s @ [\<lparr>id_t = now, text_t = text_s s, completed = False\<rparr>] \<and>
         text_t (last (tasks (rerender (addTask now) s))) = text_s s \<and>
         trim (text_t (last (tasks (rerender (addTask now) s)))) \<noteq> [] \<and>
         text_t (last (tasks (rerender (addTask now) s))) \<noteq> [] \<and>
         ((\<forall>t\<in>set (tasks s). trim (text_t t) \<noteq> []) \<longrightarrow>
          (\<forall>t\<in>set (tasks (rerender (addTask now) s)). trim (text_t t) \<noteq> []))"
proof -
  from assms have "text_s s \<noteq> []"
    using trim_Nil by auto
  with assms show ?thesis
    by (simp add: rerender_addTask)
qed

theorem addTask_stores_text_as_typed_witness:
  "trim (text_s \<lparr>tasks = [], text_s = js '' buy milk '', filter_s = AllF\<rparr>) \<noteq> [] \<and>
   tasks (rerender (addTask 1700000000000)
      \<lparr>tasks = [], text_s = js '' buy milk '', filter_s = AllF\<rparr>)
     = [\<lparr>id_t = 1700000000000, text_t = js '' buy milk '', completed = False\<rparr>]"
proof -
  have h: "trim (text_s \<lparr>tasks = [], text_s = js '' buy milk '', filter_s = AllF\<rparr>) \<noteq> []"
    by (simp add: js_def trim_def isWhiteSpace_def)
  show ?thesis using h addTask_stores_text_as_typed [OF h, of 1700000000000] by simp
qed

text \<open>
  C1 as stated fails: two additions during which \<^verbatim>\<open>Date.now()\<close> returns the same value
  give two tasks with the same id.
\<close>

theorem addTasks_same_clock_counterexample:
  "trim (js ''a'') \<noteq> [] \<and> trim (js ''b'') \<noteq> [] \<and>
   \<not> distinct (map id_t (tasks (addTasks [(js ''a'', 1700000000000), (js ''b'', 1700000000000)]
                                    init_state)))"
  by (simp add: init_state_def rerender_addTask rerender_changeText js_def trim_def isWhiteSpace_def)

text \<open>
  C1, amended. The id of a new task is the clock reading of its \<^verbatim>\<open>addTask\<close> call; there
  is no counter. For additions with non-empty trimmed text whose clock readings are
  strictly increasing and above every id already in the collection (ids that are
  pairwise distinct), one task is appended per call, every new id is greater than all ids
  before it, and the ids of the collection are pairwise distinct.
\<close>

theorem addTasks_ids_distinct:
  assumes nonempty: "\<forall>c\<in>set cs. trim (fst c) \<noteq> []"
    and clock: "sorted_wrt (<) (map snd cs)"
    and above: "\<forall>t\<in>set (tasks s). \<forall>c\<in>set cs. id_t t < snd c"
    and old: "distinct (map id_t (tasks s))"
  shows "map id_t (tasks (addTasks cs s)) = map id_t (tasks s) @ map snd cs \<and>
         length (tasks (addTasks cs s)) = length (tasks s) + length cs \<and>
         sorted_wrt (<) (map id_t (drop (length (tasks s)) (tasks (addTasks cs s)))) \<and>
         (\<forall>t\<in>set (tasks s). \<forall>u\<in>set (drop (length (tasks s)) (tasks (addTasks cs s))).
            id_t t < id_t u) \<and>
         distinct (map id_t (tasks (addTasks cs s)))"
proof -
  have ts: "tasks (addTasks cs s) =
       tasks s @ map (\<lambda>c. \<lparr>id_t = snd c, text_t = fst c, completed = False\<rparr>) cs"
    by (rule tasks_addTasks [OF nonempty])
  have ids: "map id_t (tasks (addTasks cs s)) = map id_t (tasks s) @ map snd cs"
    by (simp add: ts comp_def)
  have new: "map id_t (drop (length (tasks s)) (tasks (addTasks cs s))) = map snd cs"
    by (simp add: ts comp_def)
  have d: "distinct (map snd cs)"
    using clock strict_sorted_iff by blast
  have disj: "set (map id_t (tasks s)) \<inter> set (map snd cs) = {}"
    using above by fastforce
  have "distinct (map id_t (tasks (addTasks cs s)))"
    unfolding ids using old d disj by simp
  moreover have "\<forall>t\<in>set (tasks s). \<forall>u\<in>set (drop (length (tasks s)) (tasks (addTasks cs s))).
            id_t t < id_t u"
    using above by (auto simp: ts)
  moreover have "length (tasks (addTasks cs s)) = length (tasks s) + length cs"
    by (simp add: ts)
  ultimately show ?thesis using ids new clock by simp
qed

theorem addTasks_ids_distinct_witness:
  "trim (js ''a'') \<noteq> [] \<and> trim (js ''b'') \<noteq> [] \<and>
   sorted_wrt (<) (map snd [(js ''a'', 1700000000000), (js ''b'', 1700000000001::int)]) \<and>
   map id_t (tasks (addTasks [(js ''a'', 1700000000000), (js ''b'', 1700000000001)] init_state))
     = [1700000000000, 1700000000001] \<and>
   distinct (map id_t (tasks (addTasks [(js ''a'', 1700000000000), (js ''b'', 1700000000001)]
                                init_state)))"
proof -
  have h1: "\<forall>c\<in>set [(js ''a'', 1700000000000), (js ''b'', 1700000000001::int)]. trim (fst c) \<noteq> []"
    by (simp add: js_def trim_def isWhiteSpace_def)
  have h2: "sorted_wrt (<) (map snd [(js ''a'', 1700000000000), (js ''b'', 1700000000001::int)])"
    by simp
  have h3: "\<forall>t\<in>set (tasks init_state).
      \<forall>c\<in>set [(js ''a'', 1700000000000), (js ''b'', 1700000000001::int)]. id_t t < snd c"
    by (simp add: init_state_def)
  have h4: "distinct (map id_t (tasks init_state))"
    by (simp add: init_state_def)
  show ?thesis
    using h1 h2 addTasks_ids_distinct [OF h1 h2 h3 h4] by (simp add: init_state_def)
qed

text \<open>The scenario of the specification, from the empty collection.\<close>

lemma end_to_end:
  "tasks (rerender (addTask 1700000000000) (rerender (changeText (js ''buy milk'')) init_state))
     = [\<lparr>id_t = 1700000000000, text_t = js ''buy milk'', completed = False\<rparr>] \<and>
   filteredTasks (rerender (chooseFilter ActiveF) (rerender (toggleTask 1700000000000)
     (rerender (addTask 1700000000000) (rerender (changeText (js ''buy milk'')) init_state))))
     = [] \<and>
   filteredTasks (rerender (chooseFilter CompletedF) (rerender (toggleTask 1700000000000)
     (rerender (addTask 1700000000000) (rerender (changeText (js ''buy milk'')) init_state))))
     = [\<lparr>id_t = 1700000000000, text_t = js ''buy milk'', completed = True\<rparr>]"
  by (simp add: init_state_def rerender_def changeText_def addTask_def toggleTask_def
      chooseFilter_def filteredTasks_def js_def trim_def isWhiteSpace_def)

section \<open>Persistence\<close>

lemma tasks_foldl_no_setTasks:
  "\<not> list_ex setsTasks us \<Longrightarrow> tasks (foldl apply_setter s us) = tasks s"
proof (induction us arbitrary: s)
  case Nil
  then show ?case by simp
next
  case (Cons u us)
  then show ?case by (cases u) simp_all
qed

lemma dispatch_keeps_sync:
  assumes "inSync (s, st)" and "dispatch h (s, st) = Inr (s', st')"
  shows "inSync (s', st')"
proof (cases "list_ex setsTasks (h s)")
  case True
  from dispatch_Inr_persisted [OF True assms(2)] show ?thesis
    by (simp add: inSync_def)
next
  case False
  with assms(2) have "s' = rerender h s" "st' = st"
    by (simp_all add: dispatch_no_setTasks)
  moreover from False have "tasks (rerender h s) = tasks s"
    by (simp add: rerender_def tasks_foldl_no_setTasks)
  ultimately show ?thesis using assms(1)
    by (simp add: inSync_def)
qed

lemma run_keeps_sync:
  "inSync w \<Longrightarrow> run hs w = Inr w' \<Longrightarrow> inSync w'"
proof (induction hs arbitrary: w)
  case Nil
  then show ?case by simp
next
  case (Cons h hs)
  from Cons.prems(2) obtain w1 where d: "dispatch h w = Inr w1" and r: "run hs w1 = Inr w'"
    by (auto split: sum.splits)
  from Cons.prems(1) d have "inSync w1"
    using dispatch_keeps_sync [of "fst w" "snd w" h "fst w1" "snd w1"] by simp
  from Cons.IH [OF this r] show ?case .
qed

lemma JSON_stringify_example:
  \<open>JSON_stringify [\<lparr>id_t = 1700000000000, text_t = js ''buy milk'', completed = False\<rparr>]
     = js ''[{"id":1700000000000,"text":"buy milk","completed":false}]''\<close>
  by (simp add: stringify_eval js_def)

text \<open>
  C5. When \<^verbatim>\<open>addTask\<close> with non-empty trimmed input, \<^verbatim>\<open>toggleTask\<close> or \<^verbatim>\<open>deleteTask\<close> has
  returned, the state is the one the handler asked for and the store holds, under the
  tasks key, the encoding of the whole task sequence of that state. Along a session that
  starts with store and memory in agreement, they agree after every event that returns.
  An event does return whenever the store is accessible and the new contents fit the
  quota.
\<close>

theorem write_through_after_mutation:
  "(trim (text_s s) \<noteq> [] \<longrightarrow> dispatch (addTask now) (s, st) = Inr (s', st') \<longrightarrow>
      s' = rerender (addTask now) s \<and> inSync (s', st')) \<and>
   (dispatch (toggleTask i) (s, st) = Inr (s', st') \<longrightarrow>
      s' = rerender (toggleTask i) s \<and> inSync (s', st')) \<and>
   (dispatch (deleteTask i) (s, st) = Inr (s', st') \<longrightarrow>
      s' = rerender (deleteTask i) s \<and> inSync (s', st')) \<and>
   (inSync w \<longrightarrow> run hs w = Inr w' \<longrightarrow> inSync w') \<and>
   (accessible st \<longrightarrow>
    usage (AList.update tasksKey (JSON_stringify (tasks (rerender h s))) (items st)) \<le> quota st \<longrightarrow>
      (\<exists>st''. dispatch h (s, st) = Inr (rerender h s, st'')))"
proof (intro conjI impI)
  assume "trim (text_s s) \<noteq> []" and d: "dispatch (addTask now) (s, st) = Inr (s', st')"
  then have "list_ex setsTasks (addTask now s)"
    by (simp add: addTask_def)
  from dispatch_Inr_persisted [OF this d]
  show "s' = rerender (addTask now) s" and "inSync (s', st')"
    by (simp_all add: inSync_def)
next
  assume d: "dispatch (toggleTask i) (s, st) = Inr (s', st')"
  have "list_ex setsTasks (toggleTask i s)"
    by (simp add: toggleTask_def)
  from dispatch_Inr_persisted [OF this d]
  show "s' = rerender (toggleTask i) s" and "inSync (s', st')"
    by (simp_all add: inSync_def)
next
  assume d: "dispatch (deleteTask i) (s, st) = Inr (s', st')"
  have "list_ex setsTasks (deleteTask i s)"
    by (simp add: deleteTask_def)
  from dispatch_Inr_persisted [OF this d]
  show "s' = rerender (deleteTask i) s" and "inSync (s', st')"
    by (simp_all add: inSync_def)
next
  assume "inSync w" and "run hs w = Inr w'"
  then show "inSync w'"
    by (rule run_keeps_sync)
next
  assume a: "accessible st"
    and q: "usage (AList.update tasksKey (JSON_stringify (tasks (rerender h s))) (items st))
              \<le> quota st"
  show "\<exists>st''. dispatch h (s, st) = Inr (rerender h s, st'')"
  proof (cases "list_ex setsTasks (h s)")
    case True
    then show ?thesis
      by (simp add: dispatch_setTasks setItem_accepts [OF a q])
  next
    case False
    then show ?thesis
      by (simp add: dispatch_no_setTasks)
  qed
qed

theorem write_through_after_mutation_witness:
  "trim (text_s \<lparr>tasks = [], text_s = js ''buy milk'', filter_s = AllF\<rparr>) \<noteq> [] \<and>
   dispatch (addTask 1700000000000)
     (\<lparr>tasks = [], text_s = js ''buy milk'', filter_s = AllF\<rparr>,
      \<lparr>items = [], accessible = True, quota = 5242880, writes = 0\<rparr>)
     = Inr (\<lparr>tasks = [\<lparr>id_t = 1700000000000, text_t = js ''buy milk'', completed = False\<rparr>],
             text_s = [], filter_s = AllF\<rparr>,
            \<lparr>items = [(tasksKey, JSON_stringify
                 [\<lparr>id_t = 1700000000000, text_t = js ''buy milk'', completed = False\<rparr>])],
             accessible = True, quota = 5242880, writes = 1\<rparr>) \<and>
   inSync (\<lparr>tasks = [\<lparr>id_t = 1700000000000, text_t = js ''buy milk'', completed = False\<rparr>],
             text_s = [], filter_s = AllF\<rparr>,
           \<lparr>items = [(tasksKey, JSON_stringify
                 [\<lparr>id_t = 1700000000000, text_t = js ''buy milk'', completed = False\<rparr>])],
             accessible = True, quota = 5242880, writes = 1\<rparr>) \<and>
   run [toggleTask 1700000000000, chooseFilter CompletedF, deleteTask 1700000000000]
     (\<lparr>tasks = [\<lparr>id_t = 1700000000000, text_t = js ''buy milk'', completed = False\<rparr>],
             text_s = [], filter_s = AllF\<rparr>,
           \<lparr>items = [(tasksKey, JSON_stringify
                 [\<lparr>id_t = 1700000000000, text_t = js ''buy milk'', completed = False\<rparr>])],
             accessible = True, quota = 5242880, writes = 1\<rparr>)
     = Inr (\<lparr>tasks = [], text_s = [], filter_s = CompletedF\<rparr>,
            \<lparr>items = [(tasksKey, JSON_stringify [])],
             accessible = True, quota = 5242880, writes = 3\<rparr>) \<and>
   inSync (\<lparr>tasks = [], text_s = [], filter_s = CompletedF\<rparr>,
           \<lparr>items = [(tasksKey, JSON_stringify [])],
             accessible = True, quota = 5242880, writes = 3\<rparr>)"
proof -
  have h: "trim (text_s \<lparr>tasks = [], text_s = js ''buy milk'', filter_s = AllF\<rparr>) \<noteq> []"
    by (simp add: js_def trim_def isWhiteSpace_def)
  have d: "dispatch (addTask 1700000000000)
     (\<lparr>tasks = [], text_s = js ''buy milk'', filter_s = AllF\<rparr>,
      \<lparr>items = [], accessible = True, quota = 5242880, writes = 0\<rparr>)
     = Inr (\<lparr>tasks = [\<lparr>id_t = 1700000000000, text_t = js ''buy milk'', completed = False\<rparr>],
             text_s = [], filter_s = AllF\<rparr>,
            \<lparr>items = [(tasksKey, JSON_stringify
                 [\<lparr>id_t = 1700000000000, text_t = js ''buy milk'', completed = False\<rparr>])],
             accessible = True, quota = 5242880, writes = 1\<rparr>)"
    using h
    by (simp add: dispatch_def addTask_def rerender_def useLocalStorage_effect_def setItem_def
        usage_def tasksKey_def stringify_eval js_def)
  have r: "run [toggleTask 1700000000000, chooseFilter CompletedF, deleteTask 1700000000000]
     (\<lparr>tasks = [\<lparr>id_t = 1700000000000, text_t = js ''buy milk'', completed = False\<rparr>],
             text_s = [], filter_s = AllF\<rparr>,
           \<lparr>items = [(tasksKey, JSON_stringify
                 [\<lparr>id_t = 1700000000000, text_t = js ''buy milk'', completed = False\<rparr>])],
             accessible = True, quota = 5242880, writes = 1\<rparr>)
     = Inr (\<lparr>tasks = [], text_s = [], filter_s = CompletedF\<rparr>,
            \<lparr>items = [(tasksKey, JSON_stringify [])],
             accessible = True, quota = 5242880, writes = 3\<rparr>)"
    by (simp add: dispatch_def toggleTask_def deleteTask_def chooseFilter_def rerender_def
        useLocalStorage_effect_def setItem_def usage_def tasksKey_def stringify_eval js_def)
  note T = write_through_after_mutation
    [of "\<lparr>tasks = [], text_s = js ''buy milk'', filter_s = AllF\<rparr>" 1700000000000
        "\<lparr>items = [], accessible = True, quota = 5242880, writes = 0\<rparr>"
        "\<lparr>tasks = [\<lparr>id_t = 1700000000000, text_t = js ''buy milk'', completed = False\<rparr>],
             text_s = [], filter_s = AllF\<rparr>"
        "\<lparr>items = [(tasksKey, JSON_stringify
                 [\<lparr>id_t = 1700000000000, text_t = js ''buy milk'', completed = False\<rparr>])],
             accessible = True, quota = 5242880, writes = 1\<rparr>"
        0
        "(\<lparr>tasks = [\<lparr>id_t = 1700000000000, text_t = js ''buy milk'', completed = False\<rparr>],
             text_s = [], filter_s = AllF\<rparr>,
           \<lparr>items = [(tasksKey, JSON_stringify
                 [\<lparr>id_t = 1700000000000, text_t = js ''buy milk'', completed = False\<rparr>])],
             accessible = True, quota = 5242880, writes = 1\<rparr>)"
        "[toggleTask 1700000000000, chooseFilter CompletedF, deleteTask 1700000000000]"
        "(\<lparr>tasks = [], text_s = [], filter_s = CompletedF\<rparr>,
            \<lparr>items = [(tasksKey, JSON_stringify [])],
             accessible = True, quota = 5242880, writes = 3\<rparr>)"
        "toggleTask 0"]
  from T h d have s1: "inSync
          (\<lparr>tasks = [\<lparr>id_t = 1700000000000, text_t = js ''buy milk'', completed = False\<rparr>],
             text_s = [], filter_s = AllF\<rparr>,
           \<lparr>items = [(tasksKey, JSON_stringify
                 [\<lparr>id_t = 1700000000000, text_t = js ''buy milk'', completed = False\<rparr>])],
             accessible = True, quota = 5242880, writes = 1\<rparr>)"
    by blast
  with T r have s2: "inSync (\<lparr>tasks = [], text_s = [], filter_s = CompletedF\<rparr>,
           \<lparr>items = [(tasksKey, JSON_stringify [])],
             accessible = True, quota = 5242880, writes = 3\<rparr>)"
    by blast
  from h d s1 r s2 show ?thesis
    by (intro conjI)
qed

text \<open>
  C9. When the trimmed input is empty, \<^verbatim>\<open>addTask\<close> calls no setter: the state is
  unchanged, the event returns normally and the store is the same, write count included,
  also for a store on which every write would fail.
\<close>

theorem addTask_blank_noop:
  assumes "trim (text_s s) = []"
  shows "addTask now s = [] \<and> rerender (addTask now) s = s \<and>
         dispatch (addTask now) (s, st) = Inr (s, st)"
  using assms by (simp add: addTask_def rerender_def dispatch_def)

theorem addTask_blank_noop_witness:
  "trim (text_s \<lparr>tasks = [\<lparr>id_t = 1, text_t = js ''a'', completed = False\<rparr>],
                  text_s = js ''   '', filter_s = AllF\<rparr>) = [] \<and>
   dispatch (addTask 1700000000000)
     (\<lparr>tasks = [\<lparr>id_t = 1, text_t = js ''a'', completed = False\<rparr>],
       text_s = js ''   '', filter_s = AllF\<rparr>,
      \<lparr>items = [], accessible = False, quota = 0, writes = 0\<rparr>)
     = Inr (\<lparr>tasks = [\<lparr>id_t = 1, text_t = js ''a'', completed = False\<rparr>],
             text_s = js ''   '', filter_s = AllF\<rparr>,
            \<lparr>items = [], accessible = False, quota = 0, writes = 0\<rparr>)"
proof -
  have h: "trim (text_s \<lparr>tasks = [\<lparr>id_t = 1, text_t = js ''a'', completed = False\<rparr>],
                  text_s = js ''   '', filter_s = AllF\<rparr>) = []"
    by (simp add: js_def trim_def isWhiteSpace_def)
  show ?thesis
    using h addTask_blank_noop [OF h, of 1700000000000
        "\<lparr>items = [], accessible = False, quota = 0, writes = 0\<rparr>"]
    by simp
qed

text \<open>
  C4. The code at a store whose quota is exhausted: the write of the effect throws, and
  the event ends with the exception instead of the new state.
\<close>

theorem save_failure_ends_event:
  "dispatch (toggleTask 1)
     (\<lparr>tasks = [\<lparr>id_t = 1, text_t = js ''a'', completed = False\<rparr>], text_s = [], filter_s = AllF\<rparr>,
      \<lparr>items = [], accessible = True, quota = 16, writes = 0\<rparr>)
     = Inl QuotaExceededError"
  by (simp add: dispatch_def toggleTask_def rerender_def useLocalStorage_effect_def setItem_def
      usage_def tasksKey_def stringify_eval js_def)

section \<open>Hydration\<close>

text \<open>
  C2 as stated fails: when the store holds, under the tasks key, the seven characters
  of the JSON text of the string \<open>hello\<close> (quote, h, e, l, l, o, quote), the initial value
  is that string, not the default empty array.
\<close>

theorem useLocalStorage_init_shape_counterexample:
  "useLocalStorage_init
     \<lparr>items = [(js ''tasks'', [0x22, 0x68, 0x65, 0x6C, 0x6C, 0x6F, 0x22])],
      accessible = True, quota = 5242880, writes = 0\<rparr>
     (js ''tasks'') (JArr []) = JStr (js ''hello'') \<and>
   JStr (js ''hello'') \<noteq> JArr []"
  by (simp add: useLocalStorage_init_def getItem_def parse_eval js_def)

text \<open>
  C2, amended. The initial value is the default when the store cannot be read, when
  the key is absent, when the stored text is empty, and when \<^verbatim>\<open>JSON.parse\<close> throws. A
  stored text that parses gives the parsed value, whatever its shape.
\<close>

theorem useLocalStorage_init_default:
  "(getItem st key = Inl e \<longrightarrow> useLocalStorage_init st key d = d) \<and>
   (getItem st key = Inr None \<longrightarrow> useLocalStorage_init st key d = d) \<and>
   (getItem st key = Inr (Some []) \<longrightarrow> useLocalStorage_init st key d = d) \<and>
   (getItem st key = Inr (Some item) \<longrightarrow> JSON_parse item = Inl e' \<longrightarrow>
      useLocalStorage_init st key d = d) \<and>
   (getItem st key = Inr (Some item) \<longrightarrow> item \<noteq> [] \<longrightarrow> JSON_parse item = Inr v \<longrightarrow>
      useLocalStorage_init st key d = v)"
  by (simp add: useLocalStorage_init_def)

theorem useLocalStorage_init_default_witness:
  "getItem \<lparr>items = [(js ''tasks'', js ''{bad'')], accessible = True, quota = 5242880, writes = 0\<rparr>
     (js ''tasks'') = Inr (Some (js ''{bad'')) \<and>
   JSON_parse (js ''{bad'') = Inl SyntaxError \<and>
   useLocalStorage_init
     \<lparr>items = [(js ''tasks'', js ''{bad'')], accessible = True, quota = 5242880, writes = 0\<rparr>
     (js ''tasks'') (JArr []) = JArr [] \<and>
   getItem \<lparr>items = [], accessible = True, quota = 5242880, writes = 0\<rparr> (js ''tasks'') = Inr None \<and>
   useLocalStorage_init \<lparr>items = [], accessible = True, quota = 5242880, writes = 0\<rparr>
     (js ''tasks'') (JArr []) = JArr [] \<and>
   getItem \<lparr>items = [], accessible = False, quota = 5242880, writes = 0\<rparr> (js ''tasks'')
     = Inl SecurityError \<and>
   useLocalStorage_init \<lparr>items = [], accessible = False, quota = 5242880, writes = 0\<rparr>
     (js ''tasks'') (JArr []) = JArr [] \<and>
   getItem \<lparr>items = [(js ''tasks'', js ''[true]'')], accessible = True, quota = 5242880, writes = 0\<rparr>
     (js ''tasks'') = Inr (Some (js ''[true]'')) \<and>
   js ''[true]'' \<noteq> [] \<and> JSON_parse (js ''[true]'') = Inr (JArr [JBool True]) \<and>
   useLocalStorage_init
     \<lparr>items = [(js ''tasks'', js ''[true]'')], accessible = True, quota = 5242880, writes = 0\<rparr>
     (js ''tasks'') (JArr []) = JArr [JBool True]"
proof -
  have g1: "getItem \<lparr>items = [(js ''tasks'', js ''{bad'')], accessible = True, quota = 5242880,
              writes = 0\<rparr> (js ''tasks'') = Inr (Some (js ''{bad''))"
    by (simp add: getItem_def)
  have p1: "JSON_parse (js ''{bad'') = Inl SyntaxError"
    by (simp add: parse_eval js_def)
  have g2: "getItem \<lparr>items = [], accessible = True, quota = 5242880, writes = 0\<rparr> (js ''tasks'')
              = Inr None"
    by (simp add: getItem_def)
  have g3: "getItem \<lparr>items = [], accessible = False, quota = 5242880, writes = 0\<rparr> (js ''tasks'')
              = Inl SecurityError"
    by (simp add: getItem_def)
  have g4: "getItem \<lparr>items = [(js ''tasks'', js ''[true]'')], accessible = True, quota = 5242880,
              writes = 0\<rparr> (js ''tasks'') = Inr (Some (js ''[true]''))"
    by (simp add: getItem_def)
  have n4: "js ''[true]'' \<noteq> []"
    by (simp add: js_def)
  have p4: "JSON_parse (js ''[true]'') = Inr (JArr [JBool True])"
    by (simp add: parse_eval js_def)
  show ?thesis
    using g1 p1 g2 g3 g4 n4 p4
      useLocalStorage_init_default
        [of "\<lparr>items = [(js ''tasks'', js ''{bad'')], accessible = True, quota = 5242880,
               writes = 0\<rparr>" "js ''tasks''" _ "JArr []" "js ''{bad''" SyntaxError]
      useLocalStorage_init_default
        [of "\<lparr>items = [], accessible = True, quota = 5242880, writes = 0\<rparr>" "js ''tasks''" _
            "JArr []"]
      useLocalStorage_init_default
        [of "\<lparr>items = [], accessible = False, quota = 5242880, writes = 0\<rparr>" "js ''tasks''"
            SecurityError "JArr []"]
      useLocalStorage_init_default
        [of "\<lparr>items = [(js ''tasks'', js ''[true]'')], accessible = True, quota = 5242880,
               writes = 0\<rparr>" "js ''tasks''" _ "JArr []" "js ''[true]''" _ "JArr [JBool True]"]
    by simp
qed

text \<open>
  What the effect stores is read back by the initialiser as the array of the task
  objects; the second text holds a quote, a line feed and a backslash.
\<close>

lemma hydrate_after_save_example:
  "useLocalStorage_init
     \<lparr>items = [(tasksKey, JSON_stringify
         [\<lparr>id_t = 1700000000000, text_t = js ''buy milk'', completed = False\<rparr>,
          \<lparr>id_t = 1700000000001, text_t = [0x22, 0x0A, 0x5C], completed = True\<rparr>])],
      accessible = True, quota = 5242880, writes = 1\<rparr> tasksKey (JArr [])
   = JArr [JObj [(js ''id'', JNum (js ''1700000000000'')), (js ''text'', JStr (js ''buy milk'')),
                 (js ''completed'', JBool False)],
           JObj [(js ''id'', JNum (js ''1700000000001'')), (js ''text'', JStr [0x22, 0x0A, 0x5C]),
                 (js ''completed'', JBool True)]]"
  by (simp add: useLocalStorage_init_def getItem_def tasksKey_def stringify_eval parse_eval js_def)

end
